theory Spec2Isabelle
  imports Main "HOL-Library.AList"
begin

section \<open>The rendezvous queue (shared/async-queue.ts)\<close>

text \<open>
  The class \<open>AsyncQueue\<close> holds a backlog \<open>queue\<close> of items and a list \<open>resolvers\<close> of
  the resolve functions of the promises handed to consumers that found the backlog empty. A
  resolve function is modelled by a token \<open>'w\<close> that names its promise. \<open>enqueue\<close> returns,
  beside the new queue, the promise it resolved and the item it resolved it with, if any.
  \<open>dequeue\<close> takes the token of the promise it would create and returns the promise it gives
  to the caller: already resolved with the oldest buffered item, or pending under that token.
  \<open>enqueue_all\<close> and \<open>dequeue_all\<close> run a sequence of calls, oldest first.
\<close>

record ('a, 'w) asyncQueue =
  queue :: "'a list"
  resolvers :: "'w list"

datatype ('a, 'w) promise = Resolved 'a | Pending 'w

definition newAsyncQueue :: "('a, 'w) asyncQueue" where
  "newAsyncQueue = \<lparr>queue = [], resolvers = []\<rparr>"

definition enqueue :: "'a \<Rightarrow> ('a, 'w) asyncQueue \<Rightarrow> ('w \<times> 'a) option \<times> ('a, 'w) asyncQueue" where
  "enqueue item q =
     (case resolvers q of
        resolve # rest \<Rightarrow> (Some (resolve, item), q\<lparr>resolvers := rest\<rparr>)
      | [] \<Rightarrow> (None, q\<lparr>queue := queue q @ [item]\<rparr>))"

definition dequeue :: "'w \<Rightarrow> ('a, 'w) asyncQueue \<Rightarrow> ('a, 'w) promise \<times> ('a, 'w) asyncQueue" where
  "dequeue resolve q =
     (case queue q of
        item # rest \<Rightarrow> (Resolved item, q\<lparr>queue := rest\<rparr>)
      | [] \<Rightarrow> (Pending resolve, q\<lparr>resolvers := resolvers q @ [resolve]\<rparr>))"

fun enqueue_all :: "'a list \<Rightarrow> ('a, 'w) asyncQueue \<Rightarrow> ('w \<times> 'a) option list \<times> ('a, 'w) asyncQueue" where
  "enqueue_all [] q = ([], q)"
| "enqueue_all (x # xs) q =
     (let (r, q1) = enqueue x q; (rs, q2) = enqueue_all xs q1 in (r # rs, q2))"

fun dequeue_all :: "'w list \<Rightarrow> ('a, 'w) asyncQueue \<Rightarrow> ('a, 'w) promise list \<times> ('a, 'w) asyncQueue" where
  "dequeue_all [] q = ([], q)"
| "dequeue_all (w # ws) q =
     (let (p, q1) = dequeue w q; (ps, q2) = dequeue_all ws q1 in (p # ps, q2))"

section \<open>Field values (admin/types.ts, shared/utils.ts, admin/document.ts)\<close>

text \<open>
  A field value is \<open>undefined\<close>, \<open>null\<close>, a boolean, a number, a string, a \<open>Date\<close> (its
  \<open>getTime()\<close> in milliseconds), a store \<open>Timestamp\<close> (seconds and nanoseconds), the
  \<open>DELETE_FIELD\<close> sentinel, a built-in function (named by where it lives, as in
  \<open>Object.prototype.toString\<close>), an array, or a plain object. Numbers are integers here; on
  them \<open>Object.is\<close> is equality. A plain object is the list of its own properties in
  insertion order, written with \<open>AList.update\<close> and \<open>AList.delete\<close>, which keep one entry
  per key as a JavaScript object does.

  A plain object inherits the members of \<open>Object.prototype\<close>, all of them functions:
  \<open>getProp\<close> is the read \<open>obj[key]\<close> (the own property, else the inherited member, else
  \<open>undefined\<close>) and \<open>hasProp\<close> is \<open>key in obj\<close>. \<open>readProp\<close> is the same read on any
  object; a \<open>Timestamp\<close> of firebase-admin has the own properties \<open>_seconds\<close> and
  \<open>_nanoseconds\<close>, the accessors \<open>seconds\<close> and \<open>nanoseconds\<close> and a few methods, a
  \<open>Date\<close> and the sentinel have no own properties. \<open>Map_has\<close> is \<open>has\<close> of a \<open>Map\<close>,
  which knows its own keys only. Two things are outside the model: the accessor \<open>__proto__\<close>,
  whose assignment re-parents the object (the store admits no field name of the form
  \<open>__name__\<close>), and the order in which JavaScript enumerates keys that look like array
  indices.

  \<open>deepEqual\<close> follows the source case by case. Values of the document model are fresh copies,
  so \<open>Object.is\<close> holds between two of them only for equal primitives, for one and the same
  function and for the one sentinel object; the structural comparison gives the same answer on
  one object compared with itself. \<open>ownProps\<close> lists what \<open>Object.keys\<close> sees.

  \<open>serializeValue\<close> and \<open>unserializeValue\<close> descend into an object only when its
  \<open>constructor\<close> is \<open>Object\<close>, which is \<open>objectMember ''constructor''\<close> here: a plain
  object with an own field of that name is passed through as it is.

  \<open>fromDate\<close> and \<open>toDate\<close> are \<open>Timestamp.fromDate\<close> and \<open>Timestamp.toDate\<close> of
  firebase-admin: the first throws when the seconds leave the years 1 to 9999, the second rounds
  the nanoseconds to the nearest millisecond. \<open>serializeValue\<close> therefore may throw, and so
  may everything that serializes. \<open>structuredClone\<close> copies plain data and dates, turns an
  instance of a class into the plain object of its own properties (a \<open>Timestamp\<close> into
  \<open>{_seconds, _nanoseconds}\<close>, the sentinel into \<open>{}\<close>) and throws on a function.
\<close>

datatype message =
    ReferenceNotSet
  | LengthMismatch string string
  | SegmentMismatch string string nat
  | WatchAlreadyCalled

datatype error =
    FirestoreDocumentError message
  | TimestampRangeError int
  | DataCloneError
  | TypeError
  | HookError string
  | StoreError string

datatype FirestoreValue =
    VUndefined
  | VNull
  | VBool bool
  | VNum int
  | VStr string
  | VDate int
  | VTimestamp int int
  | DELETE_FIELD
  | VFunction string
  | VArr "FirestoreValue list"
  | VObj "(string \<times> FirestoreValue) list"

type_synonym FirestoreObject = "(string \<times> FirestoreValue) list"

definition objectPrototype :: "string list" where
  "objectPrototype =
     [''constructor'', ''__defineGetter__'', ''__defineSetter__'', ''hasOwnProperty'',
      ''__lookupGetter__'', ''__lookupSetter__'', ''isPrototypeOf'', ''propertyIsEnumerable'',
      ''toString'', ''valueOf'', ''toLocaleString'']"

definition timestampPrototype :: "string list" where
  "timestampPrototype =
     [''constructor'', ''toDate'', ''toMillis'', ''isEqual'', ''toProto'', ''valueOf'']"

definition objectMember :: "string \<Rightarrow> FirestoreValue" where
  "objectMember key =
     (if key \<in> set objectPrototype then VFunction (''Object.prototype.'' @ key) else VUndefined)"

fun ownProps :: "FirestoreValue \<Rightarrow> FirestoreObject" where
  "ownProps (VObj props) = props"
| "ownProps (VTimestamp s n) = [(''_seconds'', VNum s), (''_nanoseconds'', VNum n)]"
| "ownProps _ = []"

fun readProp :: "FirestoreValue \<Rightarrow> string \<Rightarrow> FirestoreValue" where
  "readProp (VTimestamp s n) key =
     (if key = ''_seconds'' \<or> key = ''seconds'' then VNum s
      else if key = ''_nanoseconds'' \<or> key = ''nanoseconds'' then VNum n
      else if key \<in> set timestampPrototype then VFunction (''Timestamp.prototype.'' @ key)
      else objectMember key)"
| "readProp b key = (case map_of (ownProps b) key of Some v \<Rightarrow> v | None \<Rightarrow> objectMember key)"

definition getProp :: "FirestoreObject \<Rightarrow> string \<Rightarrow> FirestoreValue" where
  "getProp obj key = readProp (VObj obj) key"

definition hasProp :: "FirestoreObject \<Rightarrow> string \<Rightarrow> bool" where
  "hasProp obj key = (key \<in> set (map fst obj) \<or> key \<in> set objectPrototype)"

definition Map_has :: "FirestoreObject \<Rightarrow> string \<Rightarrow> bool" where
  "Map_has m key = (key \<in> set (map fst m))"

fun isObjectNotArray :: "FirestoreValue \<Rightarrow> bool" where
  "isObjectNotArray (VObj _) = True"
| "isObjectNotArray (VDate _) = True"
| "isObjectNotArray (VTimestamp _ _) = True"
| "isObjectNotArray DELETE_FIELD = True"
| "isObjectNotArray _ = False"

fun deepEqual :: "FirestoreValue \<Rightarrow> FirestoreValue \<Rightarrow> bool" where
  "deepEqual (VArr xs) b = (case b of VArr ys \<Rightarrow> list_all2 deepEqual xs ys | _ \<Rightarrow> False)"
| "deepEqual (VDate x) b =
     (case b of VDate y \<Rightarrow> x = y | _ \<Rightarrow> isObjectNotArray b \<and> length (ownProps b) = 0)"
| "deepEqual (VObj props) b =
     (isObjectNotArray b \<and> length props = length (ownProps b)
      \<and> list_all (\<lambda>(key, val). deepEqual val (readProp b key)) props)"
| "deepEqual (VTimestamp s n) b =
     (isObjectNotArray b \<and> length (ownProps b) = 2
      \<and> readProp b ''_seconds'' = VNum s
      \<and> readProp b ''_nanoseconds'' = VNum n)"
| "deepEqual DELETE_FIELD b =
     (b = DELETE_FIELD \<or> (isObjectNotArray b \<and> length (ownProps b) = 0))"
| "deepEqual a b = (a = b)"

definition fromDate :: "int \<Rightarrow> error + FirestoreValue" where
  "fromDate ms =
     (let seconds = ms div 1000;
          nanos = (ms - seconds * 1000) * 1000000
      in if seconds < - 62135596800 \<or> 253402300799 < seconds
         then Inl (TimestampRangeError seconds)
         else Inr (VTimestamp seconds nanos))"

definition toDate :: "int \<Rightarrow> int \<Rightarrow> FirestoreValue" where
  "toDate s n = VDate (s * 1000 + (n + 500000) div 1000000)"

fun serializeObject :: "FirestoreObject \<Rightarrow> error + FirestoreObject"
  and serializeProps :: "FirestoreObject \<Rightarrow> FirestoreObject \<Rightarrow> error + FirestoreObject"
  and serializeValue :: "FirestoreValue \<Rightarrow> error + FirestoreValue"
  and serializeArray :: "FirestoreValue list \<Rightarrow> error + FirestoreValue list" where
  "serializeObject obj = serializeProps obj []"
| "serializeProps [] serialized = Inr serialized"
| "serializeProps ((key, v) # obj) serialized =
     (case serializeValue v of
        Inl e \<Rightarrow> Inl e
      | Inr value \<Rightarrow>
          serializeProps obj
            (if value \<noteq> VUndefined then AList.update key value serialized else serialized))"
| "serializeValue (VArr vs) = map_sum id VArr (serializeArray vs)"
| "serializeValue (VDate ms) = fromDate ms"
| "serializeValue (VObj obj) =
     (if readProp (VObj obj) ''constructor'' = objectMember ''constructor''
      then map_sum id VObj (serializeObject obj)
      else Inr (VObj obj))"
| "serializeValue value = Inr value"
| "serializeArray [] = Inr []"
| "serializeArray (v # vs) =
     (case serializeValue v of
        Inl e \<Rightarrow> Inl e
      | Inr value \<Rightarrow> map_sum id (\<lambda>values. value # values) (serializeArray vs))"

fun unserializeObject :: "FirestoreObject \<Rightarrow> FirestoreObject"
  and unserializeValue :: "FirestoreValue \<Rightarrow> FirestoreValue" where
  "unserializeObject obj =
     fold (\<lambda>(key, v) unserialized. AList.update key (unserializeValue v) unserialized) obj []"
| "unserializeValue (VArr vs) = VArr (map unserializeValue vs)"
| "unserializeValue (VTimestamp s n) = toDate s n"
| "unserializeValue (VObj obj) =
     (if readProp (VObj obj) ''constructor'' = objectMember ''constructor''
      then VObj (unserializeObject obj)
      else VObj obj)"
| "unserializeValue value = value"

fun structuredClone :: "FirestoreValue \<Rightarrow> error + FirestoreValue"
  and structuredCloneObject :: "FirestoreObject \<Rightarrow> error + FirestoreObject"
  and structuredCloneArray :: "FirestoreValue list \<Rightarrow> error + FirestoreValue list" where
  "structuredClone (VArr vs) = map_sum id VArr (structuredCloneArray vs)"
| "structuredClone (VObj obj) = map_sum id VObj (structuredCloneObject obj)"
| "structuredClone (VTimestamp s n) = Inr (VObj [(''_seconds'', VNum s), (''_nanoseconds'', VNum n)])"
| "structuredClone DELETE_FIELD = Inr (VObj [])"
| "structuredClone (VFunction f) = Inl DataCloneError"
| "structuredClone value = Inr value"
| "structuredCloneObject [] = Inr []"
| "structuredCloneObject ((key, v) # obj) =
     (case structuredClone v of
        Inl e \<Rightarrow> Inl e
      | Inr value \<Rightarrow> map_sum id (\<lambda>props. (key, value) # props) (structuredCloneObject obj))"
| "structuredCloneArray [] = Inr []"
| "structuredCloneArray (v # vs) =
     (case structuredClone v of
        Inl e \<Rightarrow> Inl e
      | Inr value \<Rightarrow> map_sum id (\<lambda>values. value # values) (structuredCloneArray vs))"

section \<open>The change-tracking document (admin/document.ts)\<close>

text \<open>
  \<open>serialize\<close> with a ledger walks the ledger's keys and keeps the serialized values that are
  not \<open>undefined\<close>; without one it serializes the whole data except \<open>_id\<close>. It throws what
  \<open>serializeValue\<close> throws.

  A reference is the path string of the store's document reference. \<open>parseKey\<close> splits the
  path and the class's path template at \<open>/\<close>, drops empty segments and matches them one by
  one; an empty template gives the segments themselves as the key.

  The store is outside the program. Each operation that calls it takes the store's answer as an
  argument (\<open>None\<close> for success, \<open>Some e\<close> for a rejection with \<open>e\<close>; for a read, the error
  or the snapshot) and returns a \<open>result\<close>: the error it throws, if any, the document
  afterwards, and the store calls it issued, in order. A transaction or write batch is an
  optional argument as in the source; the call records which was used. A snapshot listener
  registered with the store is named by the number of the unsubscribe function the store
  returned for it.

  The overridable members of the class are a record \<open>docClass\<close>: the path template, the
  default data, and the \<open>beforeSave\<close> hook, which may change the document and may throw.
  \<open>FirestoreDocument\<close> is the base class, whose hook does nothing. \<open>setData\<close> throws when
  \<open>structuredClone\<close> does, before it has changed anything. \<open>write_doc\<close> is the common tail of
  \<open>set\<close> and \<open>update\<close>: the store call on the reference as it is after the hook, then
  \<open>afterSave\<close> when the store accepted it. The class's method \<open>set\<close> and the collection's
  \<open>watch\<close> and \<open>unwatch\<close> are \<open>set_doc\<close>, \<open>collection_watch\<close> and \<open>collection_unwatch\<close>
  here. Of the collection (web/collection.ts) only the fields its \<open>watch\<close> and \<open>unwatch\<close> read
  and write are kept.

  \<open>writes\<close> runs a sequence of tracked writes, oldest first, and \<open>lastWritten\<close> is the value
  the last write to a field gave it. \<open>deletionsHitFields\<close> says of such a sequence that each
  write of \<open>undefined\<close> in it goes to a field that is in the data at that moment.
\<close>

fun serializeUpdated ::
  "FirestoreObject \<Rightarrow> string list \<Rightarrow> FirestoreObject \<Rightarrow> error + FirestoreObject" where
  "serializeUpdated dat [] serializedData = Inr serializedData"
| "serializeUpdated dat (k # ks) serializedData =
     (case serializeValue (getProp dat k) of
        Inl e \<Rightarrow> Inl e
      | Inr value \<Rightarrow>
          serializeUpdated dat ks
            (if value \<noteq> VUndefined then AList.update k value serializedData
             else serializedData))"

definition serialize :: "FirestoreObject \<Rightarrow> FirestoreObject option \<Rightarrow> error + FirestoreObject" where
  "serialize dat updatedValues =
     (case updatedValues of
        Some upd \<Rightarrow> serializeUpdated dat (map fst upd) []
      | None \<Rightarrow> serializeObject (AList.delete ''_id'' dat))"

definition unserialize :: "FirestoreObject \<Rightarrow> FirestoreObject" where
  "unserialize dat = unserializeObject dat"

fun split :: "char \<Rightarrow> string \<Rightarrow> string list" where
  "split c [] = [[]]"
| "split c (x # xs) =
     (if x = c then [] # split c xs
      else (case split c xs of p # ps \<Rightarrow> (x # p) # ps | [] \<Rightarrow> [[x]]))"

datatype FirestoreKey = KeyArray "string list" | KeyObject "(string \<times> string) list"

fun matchTemplate ::
  "string \<Rightarrow> string \<Rightarrow> nat \<Rightarrow> string list \<Rightarrow> string list \<Rightarrow> (string \<times> string) list
    \<Rightarrow> error + (string \<times> string) list" where
  "matchTemplate path pathTemplate i (template # templateParts) (part # pathParts) k =
     (if hd template = CHR ''{'' \<and> last template = CHR ''}''
      then matchTemplate path pathTemplate (Suc i) templateParts pathParts
             (AList.update (butlast (tl template)) part k)
      else if template \<noteq> part
      then Inl (FirestoreDocumentError (SegmentMismatch path pathTemplate i))
      else matchTemplate path pathTemplate (Suc i) templateParts pathParts k)"
| "matchTemplate path pathTemplate i _ _ k = Inr k"

definition parseKey :: "string \<Rightarrow> string \<Rightarrow> error + FirestoreKey" where
  "parseKey path pathTemplate =
     (let pathParts = filter (\<lambda>p. p \<noteq> []) (split CHR ''/'' path)
      in if pathTemplate = [] then Inr (KeyArray pathParts)
         else
           let templateParts = filter (\<lambda>p. p \<noteq> []) (split CHR ''/'' pathTemplate)
           in if length templateParts \<noteq> length pathParts
              then Inl (FirestoreDocumentError (LengthMismatch path pathTemplate))
              else map_sum id KeyObject (matchTemplate path pathTemplate 0 templateParts pathParts []))"

datatype txn = Transaction | WriteBatch

datatype store_call =
    RefGet "txn option" string
  | RefSet "txn option" string FirestoreObject
  | RefUpdate "txn option" string FirestoreObject
  | RefDelete "txn option" string
  | OnSnapshot string "nat option"
  | QueryOnSnapshot string nat
  | Unsubscribe nat

record DocumentSnapshot =
  snap_ref :: string
  snap_data :: "FirestoreObject option"

definition snap_exists :: "DocumentSnapshot \<Rightarrow> bool" where
  "snap_exists snapshot = (snap_data snapshot \<noteq> None)"

record document =
  reference :: "string option"
  key :: "FirestoreKey option"
  data :: FirestoreObject
  exist :: bool
  isLoaded :: bool
  updated :: FirestoreObject
  updatedAll :: bool
  snapshotQueues :: "nat list"
  unwatchFn :: "nat option"

record docClass =
  pathTemplate :: string
  defaultData :: FirestoreObject
  beforeSave :: "document \<Rightarrow> document \<times> error option"

definition FirestoreDocument :: docClass where
  "FirestoreDocument = \<lparr>pathTemplate = [], defaultData = [], beforeSave = (\<lambda>d. (d, None))\<rparr>"

record 's result =
  thrown :: "error option"
  state :: 's
  calls :: "store_call list"

definition returns :: "'s \<Rightarrow> store_call list \<Rightarrow> 's result" where
  "returns s cs = \<lparr>thrown = None, state = s, calls = cs\<rparr>"

definition throws :: "error \<Rightarrow> 's \<Rightarrow> store_call list \<Rightarrow> 's result" where
  "throws e s cs = \<lparr>thrown = Some e, state = s, calls = cs\<rparr>"

definition isNew :: "document \<Rightarrow> bool" where
  "isNew d = (\<not> exist d)"

definition isDirty :: "document \<Rightarrow> bool" where
  "isDirty d = (length (updated d) > 0 \<or> updatedAll d)"

definition afterSave :: "document \<Rightarrow> document" where
  "afterSave d = d\<lparr>updated := [], updatedAll := False, exist := True\<rparr>"

definition setValue :: "string \<Rightarrow> FirestoreValue \<Rightarrow> document \<Rightarrow> document" where
  "setValue k value d =
     (let d1 = (if \<not> Map_has (updated d) k
                then (let oldValue = getProp (data d) k
                      in if oldValue \<noteq> DELETE_FIELD
                         then d\<lparr>updated := AList.update k oldValue (updated d)\<rparr>
                         else d\<lparr>updated := AList.update k VUndefined (updated d)\<rparr>)
                else d)
      in if value = VUndefined
         then (if hasProp (data d1) k
               then (if exist d1 then d1\<lparr>data := AList.update k DELETE_FIELD (data d1)\<rparr>
                     else d1\<lparr>data := AList.delete k (data d1)\<rparr>)
               else d1)
         else d1\<lparr>data := AList.update k value (data d1)\<rparr>)"

datatype setData_arg = PlainData FirestoreObject | SnapshotData DocumentSnapshot

definition assign :: "FirestoreObject \<Rightarrow> FirestoreObject \<Rightarrow> FirestoreObject" where
  "assign tgt src = fold (\<lambda>(k, v) acc. AList.update k v acc) src tgt"

definition setData :: "setData_arg \<Rightarrow> bool \<Rightarrow> document \<Rightarrow> error + bool \<times> document" where
  "setData arg all d =
     (case (case arg of
              SnapshotData snapshot \<Rightarrow> Inr (map_option unserialize (snap_data snapshot))
            | PlainData plain \<Rightarrow> map_sum id Some (structuredCloneObject plain)) of
        Inl e \<Rightarrow> Inl e
      | Inr None \<Rightarrow> Inr (False, d)
      | Inr (Some dat) \<Rightarrow>
          if deepEqual (VObj dat) (VObj (data d))
          then Inr (False, d\<lparr>updated := [], updatedAll := all\<rparr>)
          else
            let dat1 = map (\<lambda>(k, v). (k, if v = DELETE_FIELD then VUndefined else v)) dat;
                kept = filter (\<lambda>(k, v). k = ''_id'') (data d)
            in Inr (True, d\<lparr>data := assign kept dat1, updated := [], updatedAll := all\<rparr>))"

definition setReference :: "docClass \<Rightarrow> string \<Rightarrow> document \<Rightarrow> error option \<times> document" where
  "setReference cls ref d =
     (let d1 = d\<lparr>reference := Some ref\<rparr>
      in (case parseKey ref (pathTemplate cls) of
            Inl e \<Rightarrow> (Some e, d1)
          | Inr k \<Rightarrow> (None, d1\<lparr>key := Some k\<rparr>)))"

definition setDataFromSnapshot ::
  "docClass \<Rightarrow> DocumentSnapshot \<Rightarrow> document \<Rightarrow> error option \<times> document" where
  "setDataFromSnapshot cls snapshot d =
     (let d1 = d\<lparr>exist := snap_exists snapshot\<rparr>
      in if \<not> exist d1
         then (case setData (PlainData (defaultData cls)) True d1 of
                 Inl e \<Rightarrow> (Some e, d1)
               | Inr (changed, d2) \<Rightarrow> (None, d2))
         else
           let dat = (case snap_data snapshot of Some x \<Rightarrow> x | None \<Rightarrow> [])
           in (case setReference cls (snap_ref snapshot) d1 of
                 (Some e, d2) \<Rightarrow> (Some e, d2)
               | (None, d2) \<Rightarrow>
                   (case setData (PlainData (unserialize dat)) False d2 of
                      Inl e \<Rightarrow> (Some e, d2)
                    | Inr (changed, d3) \<Rightarrow> (None, d3))))"

definition get ::
  "docClass \<Rightarrow> txn option \<Rightarrow> bool \<Rightarrow> error + DocumentSnapshot \<Rightarrow> document \<Rightarrow> document result" where
  "get cls transaction cache resp d =
     (if cache \<and> isLoaded d then returns d []
      else case reference d of
        None \<Rightarrow> throws (FirestoreDocumentError ReferenceNotSet) d []
      | Some ref \<Rightarrow>
          (case resp of
             Inl e \<Rightarrow> throws e d [RefGet transaction ref]
           | Inr snapshot \<Rightarrow>
               (case setDataFromSnapshot cls snapshot d of
                  (Some e, d1) \<Rightarrow> throws e d1 [RefGet transaction ref]
                | (None, d1) \<Rightarrow> returns (d1\<lparr>isLoaded := True\<rparr>) [RefGet transaction ref])))"

definition write_doc ::
  "(string \<Rightarrow> store_call) \<Rightarrow> error option \<Rightarrow> document \<Rightarrow> document result" where
  "write_doc call resp d =
     (case reference d of
        None \<Rightarrow> throws TypeError d []
      | Some ref \<Rightarrow>
          (case resp of
             Some e \<Rightarrow> throws e d [call ref]
           | None \<Rightarrow> returns (afterSave d) [call ref]))"

definition set_doc ::
  "docClass \<Rightarrow> FirestoreObject option \<Rightarrow> txn option \<Rightarrow> error option \<Rightarrow> document
    \<Rightarrow> document result" where
  "set_doc cls dat transaction resp d =
     (case reference d of
        None \<Rightarrow> throws (FirestoreDocumentError ReferenceNotSet) d []
      | Some _ \<Rightarrow>
          (case (case dat of
                   Some x \<Rightarrow> map_sum id snd (setData (PlainData x) True d)
                 | None \<Rightarrow> Inr d) of
             Inl e \<Rightarrow> throws e d []
           | Inr d1 \<Rightarrow>
               (case beforeSave cls d1 of
                  (d2, Some e) \<Rightarrow> throws e d2 []
                | (d2, None) \<Rightarrow>
                    (case serialize (data d2) None of
                       Inl e \<Rightarrow> throws e d2 []
                     | Inr saveData \<Rightarrow>
                         write_doc (\<lambda>ref. RefSet transaction ref saveData) resp d2))))"

definition update ::
  "docClass \<Rightarrow> txn option \<Rightarrow> error option \<Rightarrow> document \<Rightarrow> document result" where
  "update cls transaction resp d =
     (case reference d of
        None \<Rightarrow> returns d []
      | Some _ \<Rightarrow>
          if length (updated d) = 0 then returns d []
          else (case beforeSave cls d of
                  (d2, Some e) \<Rightarrow> throws e d2 []
                | (d2, None) \<Rightarrow>
                    (case serialize (data d2) (Some (updated d2)) of
                       Inl e \<Rightarrow> throws e d2 []
                     | Inr saveData \<Rightarrow>
                         write_doc (\<lambda>ref. RefUpdate transaction ref saveData) resp d2)))"

definition save ::
  "docClass \<Rightarrow> bool \<Rightarrow> txn option \<Rightarrow> error option \<Rightarrow> document \<Rightarrow> document result" where
  "save cls force transaction resp d =
     (case reference d of
        None \<Rightarrow> throws (FirestoreDocumentError ReferenceNotSet) d []
      | Some _ \<Rightarrow>
          if exist d \<and> \<not> force \<and> \<not> updatedAll d then update cls transaction resp d
          else set_doc cls None transaction resp d)"

definition delete :: "txn option \<Rightarrow> error option \<Rightarrow> document \<Rightarrow> document result" where
  "delete transaction resp d =
     (case reference d of
        None \<Rightarrow> throws (FirestoreDocumentError ReferenceNotSet) d []
      | Some ref \<Rightarrow>
          if \<not> exist d then returns d []
          else
            let d1 = d\<lparr>exist := False\<rparr>
            in (case resp of
                  Some e \<Rightarrow> throws e d1 [RefDelete transaction ref]
                | None \<Rightarrow> returns d1 [RefDelete transaction ref]))"

definition unwatch :: "document \<Rightarrow> document \<times> store_call list" where
  "unwatch d =
     (case unwatchFn d of
        Some h \<Rightarrow> (d\<lparr>unwatchFn := None, snapshotQueues := []\<rparr>, [Unsubscribe h])
      | None \<Rightarrow> (d\<lparr>snapshotQueues := []\<rparr>, []))"

definition watch :: "nat option \<Rightarrow> nat \<Rightarrow> document \<Rightarrow> document result" where
  "watch callback h d =
     (case reference d of
        None \<Rightarrow> throws (FirestoreDocumentError ReferenceNotSet) d []
      | Some ref \<Rightarrow>
          let (d1, cs) = unwatch d
          in returns (d1\<lparr>unwatchFn := Some h\<rparr>) (cs @ [OnSnapshot ref callback]))"

record collection =
  c_query :: "string option"
  c_snapshotQueues :: "nat list"
  c_unwatchFn :: "nat option"

definition collection_unwatch :: "collection \<Rightarrow> collection \<times> store_call list" where
  "collection_unwatch c =
     (case c_unwatchFn c of
        Some h \<Rightarrow> (c\<lparr>c_unwatchFn := None, c_snapshotQueues := []\<rparr>, [Unsubscribe h])
      | None \<Rightarrow> (c\<lparr>c_snapshotQueues := []\<rparr>, []))"

definition collection_watch :: "nat \<Rightarrow> nat \<Rightarrow> collection \<Rightarrow> collection result" where
  "collection_watch callback h c =
     (case c_query c of
        None \<Rightarrow> returns c []
      | Some q \<Rightarrow>
          if c_unwatchFn c \<noteq> None then throws (FirestoreDocumentError WatchAlreadyCalled) c []
          else returns (c\<lparr>c_unwatchFn := Some h\<rparr>) [QueryOnSnapshot q callback])"

definition writes :: "(string \<times> FirestoreValue) list \<Rightarrow> document \<Rightarrow> document" where
  "writes ws d = fold (\<lambda>(k, v). setValue k v) ws d"



subsection \<open>Stored values, plain data, and concrete documents for the examples\<close>

text \<open>
  \<open>stored v\<close> is what \<open>setValue\<close> puts into \<open>data[k]\<close> when \<open>v\<close> is written to a field
  \<open>k\<close> that is in the data of a document that exists remotely. \<open>plainValue\<close> holds of a
  value built from primitives, dates, arrays and plain objects only: no \<open>Timestamp\<close>, no
  sentinel, no function. \<open>structuredClone\<close> returns such a value as it is.

  \<open>doc0\<close> is a loaded, clean document at \<open>users/u1\<close> that exists remotely and holds
  \<open>{a: 1}\<close>; \<open>dirtyDoc\<close> is the same document after \<open>a\<close> was changed from 1 to 2;
  \<open>stampedDoc\<close> holds \<open>{updatedAt: Date(0)}\<close> instead; \<open>idDoc\<close> holds \<open>{_id: "x", a: 1}\<close>;
  \<open>sentinelDoc\<close> holds \<open>{a: 1, d: DELETE_FIELD}\<close> with \<open>d\<close> in the ledger, as after
  \<open>delete doc.data.d\<close>; \<open>unboundDoc\<close> was constructed without a key. \<open>failingHook\<close> is a
  subclass whose \<open>beforeSave\<close> rejects every save without touching the document, and
  \<open>stampingHook\<close> one whose \<open>beforeSave\<close> sets \<open>updatedAt\<close> to the current date (here the
  millisecond 1500) on every save, as the class \<open>User\<close> of the repository's tests does.
\<close>

definition stored :: "FirestoreValue \<Rightarrow> FirestoreValue" where
  "stored v = (if v = VUndefined then DELETE_FIELD else v)"


definition doc0 :: document where
  "doc0 = \<lparr>reference = Some ''users/u1'', key = Some (KeyArray [''users'', ''u1'']),
           data = [(''a'', VNum 1)], exist = True, isLoaded = True, updated = [],
           updatedAll = False, snapshotQueues = [], unwatchFn = None\<rparr>"

definition dirtyDoc :: document where
  "dirtyDoc = doc0\<lparr>data := [(''a'', VNum 2)], updated := [(''a'', VNum 1)]\<rparr>"

definition stampedDoc :: document where
  "stampedDoc = doc0\<lparr>data := [(''updatedAt'', VDate 0)]\<rparr>"



definition unboundDoc :: document where
  "unboundDoc = \<lparr>reference = None, key = None, data = [], exist = False, isLoaded = False,
                 updated = [], updatedAll = True, snapshotQueues = [], unwatchFn = None\<rparr>"

definition failingHook :: docClass where
  "failingHook = FirestoreDocument\<lparr>beforeSave := (\<lambda>d. (d, Some (HookError ''Name is required'')))\<rparr>"

definition stampingHook :: docClass where
  "stampingHook = FirestoreDocument\<lparr>beforeSave := (\<lambda>d. (setValue ''updatedAt'' (VDate 1500) d, None))\<rparr>"

definition foundSnapshot :: DocumentSnapshot where
  "foundSnapshot = \<lparr>snap_ref = ''users/u1'', snap_data = Some [(''t'', VTimestamp 1 5500000)]\<rparr>"

definition watchedCollection :: collection where
  "watchedCollection = \<lparr>c_query = Some ''users'', c_snapshotQueues = [], c_unwatchFn = Some 7\<rparr>"

declare serializeObject.simps [simp del] unserializeObject.simps [simp del] deepEqual.simps [simp del]

section \<open>Properties of the operations\<close>

subsection \<open>The queue\<close>

lemma enqueue_all_backlog:
  "resolvers q = [] \<Longrightarrow>
   enqueue_all xs q = (replicate (length xs) None, q\<lparr>queue := queue q @ xs\<rparr>)"
  by (induction xs arbitrary: q) (simp_all add: enqueue_def)

lemma dequeue_all_waiters:
  "queue q = [] \<Longrightarrow>
   dequeue_all ws q = (map Pending ws, q\<lparr>resolvers := resolvers q @ ws\<rparr>)"
  by (induction ws arbitrary: q) (simp_all add: dequeue_def)

lemma dequeue_all_backlog:
  "resolvers q = [] \<Longrightarrow>
   dequeue_all ws q =
     (map Resolved (take (length ws) (queue q)) @ map Pending (drop (length (queue q)) ws),
      q\<lparr>queue := drop (length ws) (queue q), resolvers := drop (length (queue q)) ws\<rparr>)"
proof (induction ws arbitrary: q)
  case Nil
  then show ?case by simp
next
  case (Cons w ws)
  show ?case
  proof (cases "queue q")
    case Nil
    with Cons.prems show ?thesis
      by (simp add: dequeue_all_waiters dequeue_def)
  next
    case (Cons x rest)
    with Cons.prems Cons.IH [of "q\<lparr>queue := rest\<rparr>"] show ?thesis
      by (simp add: dequeue_def)
  qed
qed

lemma enqueue_all_waiters:
  "queue q = [] \<Longrightarrow>
   enqueue_all xs q =
     (map Some (zip (resolvers q) xs) @ replicate (length xs - length (resolvers q)) None,
      q\<lparr>queue := drop (length (resolvers q)) xs, resolvers := drop (length xs) (resolvers q)\<rparr>)"
proof (induction xs arbitrary: q)
  case Nil
  then show ?case by simp
next
  case (Cons x xs)
  show ?case
  proof (cases "resolvers q")
    case Nil
    with Cons.prems show ?thesis
      by (simp add: enqueue_all_backlog enqueue_def)
  next
    case (Cons w rest)
    with Cons.prems Cons.IH [of "q\<lparr>resolvers := rest\<rparr>"] show ?thesis
      by (simp add: enqueue_def)
  qed
qed

subsection \<open>Tracked writes\<close>

lemma Map_has_update [simp]: "Map_has (AList.update k v al) k' = (k' = k \<or> Map_has al k')"
  by (auto simp: Map_has_def dom_update)

lemma Map_has_keys: "Map_has al k = (k \<in> fst ` set al)"
  by (simp add: Map_has_def)

lemma hasProp_update [simp]: "hasProp (AList.update k v al) k' = (k' = k \<or> hasProp al k')"
  by (auto simp: hasProp_def dom_update)

lemma getProp_own: "map_of obj k = Some v \<Longrightarrow> getProp obj k = v"
  by (simp add: getProp_def)

lemma getProp_update [simp]:
  "getProp (AList.update k v al) k' = (if k' = k then v else getProp al k')"
  by (simp add: getProp_def update_conv')

lemma setValue_fields [simp]:
  "reference (setValue k v d) = reference d"
  "exist (setValue k v d) = exist d"
  "updatedAll (setValue k v d) = updatedAll d"
  by (simp_all add: setValue_def Let_def)

lemma setValue_updated_keys:
  "fst ` set (updated (setValue k v d)) = insert k (fst ` set (updated d))"
  by (auto simp: setValue_def Let_def dom_update Map_has_keys)


lemma setValue_data_other:
  "k' \<noteq> k \<Longrightarrow> map_of (data (setValue k v d)) k' = map_of (data d) k'"
  by (simp add: setValue_def Let_def update_conv' delete_conv')



lemma setValue_data_deleted:
  "exist d \<Longrightarrow> hasProp (data d) k \<Longrightarrow> map_of (data (setValue k VUndefined d)) k = Some DELETE_FIELD"
  by (simp add: setValue_def Let_def update_conv')


lemma writes_Nil [simp]: "writes [] d = d"
  by (simp add: writes_def)

lemma writes_Cons [simp]: "writes ((k, v) # ws) d = writes ws (setValue k v d)"
  by (simp add: writes_def)

lemma writes_snoc [simp]: "writes (ws @ [(k, v)]) d = setValue k v (writes ws d)"
  by (simp add: writes_def)


lemma writes_exist [simp]: "exist (writes ws d) = exist d"
proof (induction ws arbitrary: d)
  case Nil
  show ?case by simp
next
  case (Cons w ws)
  show ?case by (cases w) (simp add: Cons.IH)
qed

lemma writes_updatedAll [simp]: "updatedAll (writes ws d) = updatedAll d"
proof (induction ws arbitrary: d)
  case Nil
  show ?case by simp
next
  case (Cons w ws)
  show ?case by (cases w) (simp add: Cons.IH)
qed

lemma writes_updated_keys:
  "fst ` set (updated (writes ws d)) = fst ` set (updated d) \<union> fst ` set ws"
proof (induction ws arbitrary: d)
  case Nil
  then show ?case by simp
next
  case (Cons w ws)
  obtain k v where w: "w = (k, v)" by (cases w)
  show ?case
    unfolding w writes_Cons Cons.IH setValue_updated_keys by auto
qed

lemma setValue_Map_has_updated [simp]:
  "Map_has (updated (setValue k' v d)) k = (k = k' \<or> Map_has (updated d) k)"
  unfolding Map_has_keys setValue_updated_keys by auto

lemma writes_Map_has_updated [simp]:
  "Map_has (updated (writes ws d)) k = (Map_has (updated d) k \<or> k \<in> fst ` set ws)"
  unfolding Map_has_keys writes_updated_keys by auto





subsection \<open>Serialization\<close>

lemma stored_defined [simp]: "stored v \<noteq> VUndefined"
  by (simp add: stored_def)

lemma serializeValue_undefined [simp]: "(serializeValue v = Inr VUndefined) = (v = VUndefined)"
proof (cases v)
  case (VDate ms)
  then show ?thesis by (simp add: fromDate_def Let_def)
next
  case (VArr vs)
  then show ?thesis by (cases "serializeArray vs") simp_all
next
  case (VObj obj)
  then show ?thesis by (cases "serializeObject obj") simp_all
qed simp_all

lemma serializeValue_sentinel [simp]: "serializeValue DELETE_FIELD = Inr DELETE_FIELD"
  by simp



lemma serializeUpdated_map_of:
  "serializeUpdated dat ks acc = Inr p \<Longrightarrow>
   (if k \<in> set ks \<and> getProp dat k \<noteq> VUndefined
    then serializeValue (getProp dat k) = Inr (getProp p k) \<and> map_of p k \<noteq> None
    else map_of p k = map_of acc k)"
proof (induction ks arbitrary: acc)
  case Nil
  then show ?case by simp
next
  case (Cons k' ks)
  obtain s where s: "serializeValue (getProp dat k') = Inr s"
    using Cons.prems by (cases "serializeValue (getProp dat k')") simp_all
  let ?acc = "if s \<noteq> VUndefined then AList.update k' s acc else acc"
  have rest: "serializeUpdated dat ks ?acc = Inr p"
    using Cons.prems s by simp
  note IH = Cons.IH [OF rest]
  have undef: "(s = VUndefined) = (getProp dat k' = VUndefined)"
    using s serializeValue_undefined [of "getProp dat k'"] by auto
  show ?case
  proof (cases "k \<in> set ks \<and> getProp dat k \<noteq> VUndefined")
    case True
    with IH show ?thesis by simp
  next
    case False
    then have later: "map_of p k = map_of ?acc k"
      using IH by simp
    show ?thesis
    proof (cases "k = k' \<and> getProp dat k \<noteq> VUndefined")
      case True
      then have k: "k = k'" and def: "getProp dat k' \<noteq> VUndefined"
        by blast+
      have "s \<noteq> VUndefined"
        using undef def by simp
      then have "map_of p k' = Some s"
        using later by (simp add: k update_conv')
      then show ?thesis
        using def s by (simp add: k getProp_own)
    next
      case False
      then have "map_of ?acc k = map_of acc k"
        using undef by (auto simp: update_conv')
      then show ?thesis
        using False \<open>\<not> (k \<in> set ks \<and> getProp dat k \<noteq> VUndefined)\<close> later by auto
    qed
  qed
qed


lemma serializeProps_keys:
  "serializeProps obj acc = Inr p \<Longrightarrow> fst ` set p \<subseteq> fst ` set acc \<union> fst ` set obj"
proof (induction obj arbitrary: acc)
  case Nil
  then show ?case by simp
next
  case (Cons kv obj)
  obtain k v where kv: "kv = (k, v)" by (cases kv)
  obtain s where s: "serializeValue v = Inr s"
    using Cons.prems by (cases "serializeValue v") (simp_all add: kv)
  have "serializeProps obj (if s \<noteq> VUndefined then AList.update k s acc else acc) = Inr p"
    using Cons.prems s by (simp add: kv)
  from Cons.IH [OF this] show ?case
    by (auto simp: kv dom_update split: if_splits)
qed

lemma serialize_full_keys:
  "serialize dat None = Inr p \<Longrightarrow> fst ` set p \<subseteq> fst ` set dat - {''_id''}"
proof -
  assume "serialize dat None = Inr p"
  then have "serializeProps (AList.delete ''_id'' dat) [] = Inr p"
    by (simp add: serialize_def serializeObject.simps)
  from serializeProps_keys [OF this]
  have "fst ` set p \<subseteq> fst ` set (AList.delete ''_id'' dat)"
    by simp
  also have "\<dots> = fst ` set dat - {''_id''}"
    by (auto simp: AList.delete_eq)
  finally show ?thesis .
qed

subsection \<open>Replacing the data\<close>

lemma structuredClone_not_sentinel: "structuredClone v = Inr x \<Longrightarrow> x \<noteq> DELETE_FIELD"
proof (cases v)
  case (VArr vs)
  assume "structuredClone v = Inr x"
  with VArr show ?thesis by (cases "structuredCloneArray vs") auto
next
  case (VObj obj)
  assume "structuredClone v = Inr x"
  with VObj show ?thesis by (cases "structuredCloneObject obj") auto
qed auto

lemma structuredCloneObject_shape:
  "structuredCloneObject obj = Inr c \<Longrightarrow> map fst c = map fst obj \<and> DELETE_FIELD \<notin> snd ` set c"
proof (induction obj arbitrary: c)
  case Nil
  then show ?case by simp
next
  case (Cons kv obj)
  obtain k v where kv: "kv = (k, v)" by (cases kv)
  obtain x where x: "structuredClone v = Inr x"
    using Cons.prems by (cases "structuredClone v") (simp_all add: kv)
  obtain c' where c': "structuredCloneObject obj = Inr c'"
    using Cons.prems x by (cases "structuredCloneObject obj") (simp_all add: kv)
  have c: "c = (k, x) # c'"
    using Cons.prems x c' by (simp add: kv)
  show ?case
    using Cons.IH [OF c'] structuredClone_not_sentinel [OF x] by (simp add: c kv)
qed

lemma strip_sentinel_id:
  "DELETE_FIELD \<notin> snd ` set dat \<Longrightarrow>
   map (\<lambda>(k, v). (k, if v = DELETE_FIELD then VUndefined else v)) dat = dat"
  by (induction dat) auto

lemma setData_plain_fails:
  "structuredCloneObject dat = Inl e \<Longrightarrow> setData (PlainData dat) all d = Inl e"
  by (simp add: setData_def)

lemma setData_plain:
  "structuredCloneObject dat = Inr c \<Longrightarrow>
   setData (PlainData dat) all d =
     Inr (if deepEqual (VObj c) (VObj (data d))
          then (False, d\<lparr>updated := [], updatedAll := all\<rparr>)
          else (True, d\<lparr>data := assign (filter (\<lambda>(k, v). k = ''_id'') (data d)) c,
                        updated := [], updatedAll := all\<rparr>))"
  using structuredCloneObject_shape [of dat c]
  by (simp add: setData_def Let_def strip_sentinel_id)











section \<open>Claims\<close>

subsection \<open>C1: payload of the partial update after a run of field writes\<close>




subsection \<open>C2: the ledger keeps the first prior value of a field\<close>



subsection \<open>C3: deleting a field\<close>

text \<open>
  Claim C3, as amended. Let \<open>k\<close> be a field in \<open>data\<close> of a document with a resolved
  reference, and let \<open>undefined\<close> be written to \<open>k\<close>. Let the \<open>beforeSave\<close> hook of the
  document's class, run on the document after that write, return without throwing and leave
  alone what the write did to \<open>k\<close>: the entry of \<open>k\<close> in \<open>data\<close> (or its absence), the
  presence of \<open>k\<close> in the ledger, and the reference.
  On a document that exists remotely the write stores the delete sentinel in \<open>data[k]\<close>.
  The next \<open>update\<close> then either issues exactly one partial update, whose payload maps \<open>k\<close>
  to the sentinel, or, when a field of the ledger holds a value that does not serialize (a
  date outside the store's range), throws that error before any store call.
  On a document that does not exist remotely the write removes \<open>k\<close> from \<open>data\<close>. The next
  \<open>save\<close> (with any \<open>force\<close>) then either issues exactly one full write, whose payload has no
  entry for \<open>k\<close>, or, when a field of the data does not serialize, throws that error before
  any store call.
\<close>

theorem delete_field_payload:
  assumes "hasProp (data d) k" and "reference d = Some ref"
    and "beforeSave cls (setValue k VUndefined d) = (d2, None)"
    and "map_of (data d2) k = map_of (data (setValue k VUndefined d)) k"
    and "Map_has (updated d2) k" and "reference d2 = Some ref"
  shows "(exist d \<longrightarrow>
            map_of (data (setValue k VUndefined d)) k = Some DELETE_FIELD
          \<and> (\<forall>payload. serialize (data d2) (Some (updated d2)) = Inr payload \<longrightarrow>
                 calls (update cls tx resp (setValue k VUndefined d)) = [RefUpdate tx ref payload]
               \<and> map_of payload k = Some DELETE_FIELD)
          \<and> (\<forall>e. serialize (data d2) (Some (updated d2)) = Inl e \<longrightarrow>
                 update cls tx resp (setValue k VUndefined d) = throws e d2 []))
       \<and> (\<not> exist d \<longrightarrow>
            k \<notin> fst ` set (data (setValue k VUndefined d))
          \<and> (\<forall>payload. serialize (data d2) None = Inr payload \<longrightarrow>
                 calls (save cls force tx resp (setValue k VUndefined d)) = [RefSet tx ref payload]
               \<and> k \<notin> fst ` set payload)
          \<and> (\<forall>e. serialize (data d2) None = Inl e \<longrightarrow>
                 save cls force tx resp (setValue k VUndefined d) = throws e d2 []))"
proof (intro conjI impI allI)
  let ?d = "setValue k VUndefined d"
  have ne: "updated ?d \<noteq> []"
  proof
    assume "updated ?d = []"
    then have "\<not> Map_has (updated ?d) k" by (simp add: Map_has_def)
    then show False by simp
  qed
  have run: "update cls tx resp ?d =
      (case serialize (data d2) (Some (updated d2)) of
         Inl e \<Rightarrow> throws e d2 []
       | Inr saveData \<Rightarrow> write_doc (\<lambda>ref. RefUpdate tx ref saveData) resp d2)"
    using assms(2) assms(3) ne by (simp add: update_def)
  {
    assume ex: "exist d"
    show sentinel: "map_of (data ?d) k = Some DELETE_FIELD"
      using ex assms(1) by (rule setValue_data_deleted)
    {
      fix payload
      assume ser: "serialize (data d2) (Some (updated d2)) = Inr payload"
      show "calls (update cls tx resp ?d) = [RefUpdate tx ref payload]"
        unfolding run ser using assms(6)
        by (cases resp) (simp_all add: write_doc_def returns_def throws_def)
      have p: "serializeUpdated (data d2) (map fst (updated d2)) [] = Inr payload"
        using ser by (simp add: serialize_def)
      have val: "getProp (data d2) k = DELETE_FIELD"
        using sentinel assms(4) by (simp add: getProp_own)
      have mem: "k \<in> set (map fst (updated d2))"
        using assms(5) by (simp add: Map_has_def)
      have "serializeValue (getProp (data d2) k) = Inr (getProp payload k) \<and> map_of payload k \<noteq> None"
        using serializeUpdated_map_of [OF p, of k] mem val by simp
      then have "getProp payload k = DELETE_FIELD" and "map_of payload k \<noteq> None"
        by (simp_all add: val)
      then show "map_of payload k = Some DELETE_FIELD"
        by (auto simp: getProp_own)
    }
    {
      fix e
      assume "serialize (data d2) (Some (updated d2)) = Inl e"
      then show "update cls tx resp ?d = throws e d2 []"
        by (simp add: run)
    }
  }
  {
    assume nex: "\<not> exist d"
    have dat: "data ?d = AList.delete k (data d)"
      using assms(1) nex by (simp add: setValue_def Let_def)
    show gone: "k \<notin> fst ` set (data ?d)"
      by (simp add: dat delete_notin_dom)
    have run2: "save cls force tx resp ?d =
        (case serialize (data d2) None of
           Inl e \<Rightarrow> throws e d2 []
         | Inr saveData \<Rightarrow> write_doc (\<lambda>ref. RefSet tx ref saveData) resp d2)"
      using assms(2) assms(3) nex by (simp add: save_def set_doc_def)
    {
      fix payload
      assume ser: "serialize (data d2) None = Inr payload"
      show "calls (save cls force tx resp ?d) = [RefSet tx ref payload]"
        unfolding run2 ser using assms(6)
        by (cases resp) (simp_all add: write_doc_def returns_def throws_def)
      have "map_of (data d2) k = None"
        using gone assms(4) by (simp add: map_of_eq_None_iff)
      then have "k \<notin> fst ` set (data d2)"
        by (simp add: map_of_eq_None_iff)
      with serialize_full_keys [OF ser] show "k \<notin> fst ` set payload"
        by blast
    }
    {
      fix e
      assume "serialize (data d2) None = Inl e"
      then show "save cls force tx resp ?d = throws e d2 []"
        by (simp add: run2)
    }
  }
qed

text \<open>
  Both halves at a document whose data is \<open>{a: 1}\<close>, of the class whose hook stamps
  \<open>updatedAt\<close>: the hook leaves \<open>a\<close> alone, so the payload of the update maps \<open>a\<close> to the
  sentinel, and the payload of the full write of the new document does not hold \<open>a\<close>.
\<close>

theorem delete_field_payload_witness:
  "hasProp (data doc0) ''a'' \<and> exist doc0 \<and> \<not> exist (doc0\<lparr>exist := False\<rparr>)
   \<and> (\<exists>payload. calls (update stampingHook None None (setValue ''a'' VUndefined doc0))
                    = [RefUpdate None ''users/u1'' payload]
                 \<and> map_of payload ''a'' = Some DELETE_FIELD)
   \<and> (\<exists>payload. calls (save stampingHook False None None
                           (setValue ''a'' VUndefined (doc0\<lparr>exist := False\<rparr>)))
                    = [RefSet None ''users/u1'' payload]
                 \<and> ''a'' \<notin> fst ` set payload)"
proof -
  let ?n = "doc0\<lparr>exist := False\<rparr>"
  let ?d2 = "setValue ''updatedAt'' (VDate 1500) (setValue ''a'' VUndefined doc0)"
  let ?n2 = "setValue ''updatedAt'' (VDate 1500) (setValue ''a'' VUndefined ?n)"
  have h1: "hasProp (data doc0) ''a''" by (simp add: doc0_def hasProp_def)
  have h2: "reference doc0 = Some ''users/u1''" by (simp add: doc0_def)
  have h3: "beforeSave stampingHook (setValue ''a'' VUndefined doc0) = (?d2, None)"
    by (simp add: stampingHook_def)
  have h4: "map_of (data ?d2) ''a'' = map_of (data (setValue ''a'' VUndefined doc0)) ''a''"
    by (simp add: setValue_data_other)
  have h5: "Map_has (updated ?d2) ''a''" by simp
  have h6: "reference ?d2 = Some ''users/u1''" by (simp add: doc0_def)
  have n1: "hasProp (data ?n) ''a''" by (simp add: doc0_def hasProp_def)
  have n2: "reference ?n = Some ''users/u1''" by (simp add: doc0_def)
  have n3: "beforeSave stampingHook (setValue ''a'' VUndefined ?n) = (?n2, None)"
    by (simp add: stampingHook_def)
  have n4: "map_of (data ?n2) ''a'' = map_of (data (setValue ''a'' VUndefined ?n)) ''a''"
    by (simp add: setValue_data_other)
  have n5: "Map_has (updated ?n2) ''a''" by simp
  have n6: "reference ?n2 = Some ''users/u1''" by (simp add: doc0_def)
  have e1: "exist doc0" by (simp add: doc0_def)
  have e2: "\<not> exist ?n" by simp
  have s1: "serialize (data ?d2) (Some (updated ?d2))
      = Inr [(''a'', DELETE_FIELD), (''updatedAt'', VTimestamp 1 500000000)]"
    by (simp add: doc0_def setValue_def serialize_def hasProp_def getProp_def Map_has_def
        objectMember_def objectPrototype_def fromDate_def Let_def)
  have s2: "serialize (data ?n2) None = Inr [(''updatedAt'', VTimestamp 1 500000000)]"
    by (simp add: doc0_def setValue_def serialize_def hasProp_def getProp_def Map_has_def
        objectMember_def objectPrototype_def fromDate_def Let_def serializeObject.simps)
  have "\<exists>payload. calls (update stampingHook None None (setValue ''a'' VUndefined doc0))
                    = [RefUpdate None ''users/u1'' payload]
                 \<and> map_of payload ''a'' = Some DELETE_FIELD"
    using delete_field_payload [OF h1 h2 h3 h4 h5 h6, of None None False] e1 s1 by blast
  moreover have "\<exists>payload. calls (save stampingHook False None None (setValue ''a'' VUndefined ?n))
                    = [RefSet None ''users/u1'' payload]
                 \<and> ''a'' \<notin> fst ` set payload"
    using delete_field_payload [OF n1 n2 n3 n4 n5 n6, of None None False] e2 s2 by blast
  ultimately show ?thesis
    using h1 e1 e2 by blast
qed

text \<open>
  The claim as stated fails for a class whose hook writes the deleted field. \<open>stampedDoc\<close>
  exists remotely and holds \<open>updatedAt\<close>; after \<open>undefined\<close> is written to \<open>updatedAt\<close> the
  data holds the sentinel there, but the hook of \<open>stampingHook\<close> sets \<open>updatedAt\<close> again
  before the payload is built: the update sends the date, not the sentinel. It also fails when
  another dirty field does not serialize: with a date past the year 9999 written to \<open>b\<close>,
  the update after the deletion of \<open>a\<close> throws before any store call.
\<close>

theorem delete_field_hook_counterexample:
  "hasProp (data stampedDoc) ''updatedAt'' \<and> exist stampedDoc
   \<and> reference stampedDoc = Some ''users/u1''
   \<and> map_of (data (setValue ''updatedAt'' VUndefined stampedDoc)) ''updatedAt'' = Some DELETE_FIELD
   \<and> calls (update stampingHook None None (setValue ''updatedAt'' VUndefined stampedDoc))
       = [RefUpdate None ''users/u1'' [(''updatedAt'', VTimestamp 1 500000000)]]
   \<and> hasProp (data (setValue ''b'' (VDate 253402300800000) doc0)) ''a''
   \<and> update FirestoreDocument None None
        (setValue ''a'' VUndefined (setValue ''b'' (VDate 253402300800000) doc0))
       = \<lparr>thrown = Some (TimestampRangeError 253402300800),
           state = setValue ''a'' VUndefined (setValue ''b'' (VDate 253402300800000) doc0),
           calls = []\<rparr>"
  by (simp add: doc0_def stampedDoc_def setValue_def update_def write_doc_def serialize_def
      FirestoreDocument_def stampingHook_def returns_def throws_def hasProp_def getProp_def
      Map_has_def objectMember_def objectPrototype_def afterSave_def fromDate_def Let_def)

subsection \<open>C4: the state after a successful get\<close>




subsection \<open>C5: what marks a document dirty\<close>

text \<open>
  Claim C5, as amended. A tracked write always leaves the document dirty, whatever the value
  (also the value the field already holds). \<open>setData\<close> on a plain object first copies it with
  \<open>structuredClone\<close> and throws when that throws. Otherwise, after \<open>setData\<close> the document is
  dirty exactly when the \<open>updatedAll\<close> argument is true, whether or not the copy is deep-equal
  to the current data; deep equality decides only that the data is left in place and that
  \<open>setData\<close> returns false.
\<close>

theorem dirty_after_write_and_setData:
  "isDirty (setValue k v d)
   \<and> (\<forall>e. structuredCloneObject dat = Inl e \<longrightarrow> setData (PlainData dat) all d = Inl e)
   \<and> (\<forall>c. structuredCloneObject dat = Inr c \<longrightarrow>
          (\<exists>changed d'. setData (PlainData dat) all d = Inr (changed, d') \<and> isDirty d' = all)
        \<and> (deepEqual (VObj c) (VObj (data d)) \<longrightarrow>
             setData (PlainData dat) all d = Inr (False, d\<lparr>updated := [], updatedAll := all\<rparr>)))"
proof -
  have "Map_has (updated (setValue k v d)) k"
    by simp
  then have "updated (setValue k v d) \<noteq> []"
    by (auto simp: Map_has_def)
  then have dirty: "isDirty (setValue k v d)"
    by (simp add: isDirty_def)
  have fails: "\<forall>e. structuredCloneObject dat = Inl e \<longrightarrow> setData (PlainData dat) all d = Inl e"
    by (simp add: setData_plain_fails)
  have copies: "(\<exists>changed d'. setData (PlainData dat) all d = Inr (changed, d') \<and> isDirty d' = all)
      \<and> (deepEqual (VObj c) (VObj (data d)) \<longrightarrow>
           setData (PlainData dat) all d = Inr (False, d\<lparr>updated := [], updatedAll := all\<rparr>))"
    if "structuredCloneObject dat = Inr c" for c
    by (cases "deepEqual (VObj c) (VObj (data d))") (auto simp: setData_plain [OF that] isDirty_def)
  show ?thesis
    using dirty fails copies by blast
qed

text \<open>
  At a concrete document: writing 1 to \<open>a\<close>, which already holds 1, makes the document dirty;
  replacing the data by the deep-equal \<open>{a: 1}\<close> with \<open>updatedAll = false\<close> leaves it clean.
\<close>

theorem dirty_after_write_and_setData_witness:
  "structuredCloneObject [(''a'', VNum 1)] = Inr [(''a'', VNum 1)]
   \<and> deepEqual (VObj [(''a'', VNum 1)]) (VObj (data doc0))
   \<and> isDirty (setValue ''a'' (VNum 1) doc0)
   \<and> setData (PlainData [(''a'', VNum 1)]) False doc0 = Inr (False, doc0)
   \<and> \<not> isDirty doc0"
proof -
  have cl: "structuredCloneObject [(''a'', VNum 1)] = Inr [(''a'', VNum 1)]"
    by simp
  have eq: "deepEqual (VObj [(''a'', VNum 1)]) (VObj (data doc0))"
    by (simp add: doc0_def deepEqual.simps)
  have same: "doc0\<lparr>updated := [], updatedAll := False\<rparr> = doc0"
    by (simp add: doc0_def)
  have clean: "\<not> isDirty doc0"
    by (simp add: doc0_def isDirty_def)
  note inst = dirty_after_write_and_setData [of "''a''" "VNum 1" doc0 "[(''a'', VNum 1)]" False]
  have dirty: "isDirty (setValue ''a'' (VNum 1) doc0)"
    using inst by blast
  have "setData (PlainData [(''a'', VNum 1)]) False doc0
      = Inr (False, doc0\<lparr>updated := [], updatedAll := False\<rparr>)"
    using inst cl eq by blast
  then have ret: "setData (PlainData [(''a'', VNum 1)]) False doc0 = Inr (False, doc0)"
    unfolding same .
  show ?thesis
    using cl eq dirty ret clean by blast
qed

text \<open>
  The claim as stated says a deep-equal \<open>setData\<close> does not mark the document dirty. With the
  default \<open>updatedAll = true\<close> (the one \<open>set(data)\<close> uses) it does: the clean document whose
  data is \<open>{a: 1}\<close> is dirty after \<open>setData({a: 1})\<close>.
\<close>

theorem setData_equal_marks_dirty_counterexample:
  "deepEqual (VObj [(''a'', VNum 1)]) (VObj (data doc0)) \<and> \<not> isDirty doc0
   \<and> setData (PlainData [(''a'', VNum 1)]) True doc0 = Inr (False, doc0\<lparr>updatedAll := True\<rparr>)
   \<and> isDirty (doc0\<lparr>updatedAll := True\<rparr>)"
  by (simp add: doc0_def isDirty_def setData_def deepEqual.simps)

subsection \<open>C6: a throwing beforeSave hook\<close>

text \<open>
  Claim C6, as amended. Let the \<open>beforeSave\<close> hook throw \<open>e\<close> on a document with a resolved
  reference, leaving it as \<open>d'\<close>. Then \<open>update\<close> (with a non-empty ledger) and \<open>set\<close> without a
  data argument reject with \<open>e\<close>, issue no store call, and leave the document exactly as the hook
  left it: a hook that only validates leaves the ledger and the full-overwrite flag as they were
  at the call. \<open>set\<close> with a data argument also issues no store call, but runs the hook on the
  document \<open>setData\<close> has already changed; when \<open>setData\<close> itself throws, the hook does not
  run and the document is as it was.
\<close>

theorem beforeSave_throw_aborts:
  assumes "reference d = Some ref" and "beforeSave cls d = (d', Some e)"
  shows "set_doc cls None tx resp d = throws e d' []
       \<and> (updated d \<noteq> [] \<longrightarrow> update cls tx resp d = throws e d' [])
       \<and> calls (update cls tx resp d) = []
       \<and> (\<forall>dat changed d1 d'' e'.
             setData (PlainData dat) True d = Inr (changed, d1)
             \<and> beforeSave cls d1 = (d'', Some e') \<longrightarrow>
             set_doc cls (Some dat) tx resp d = throws e' d'' [])
       \<and> (\<forall>dat e'. setData (PlainData dat) True d = Inl e' \<longrightarrow>
             set_doc cls (Some dat) tx resp d = throws e' d [])"
  using assms by (simp add: set_doc_def update_def returns_def throws_def)

text \<open>
  At a concrete document with one pending change and a hook that rejects every save: both
  operations reject, issue no call and leave ledger and flag as they were.
\<close>

theorem beforeSave_throw_aborts_witness:
  "update failingHook None None dirtyDoc = throws (HookError ''Name is required'') dirtyDoc []
   \<and> set_doc failingHook None None None dirtyDoc
       = throws (HookError ''Name is required'') dirtyDoc []
   \<and> updated (state (update failingHook None None dirtyDoc)) = [(''a'', VNum 1)]
   \<and> updatedAll (state (update failingHook None None dirtyDoc)) = False"
proof -
  have h1: "reference dirtyDoc = Some ''users/u1''"
    by (simp add: dirtyDoc_def doc0_def)
  have h2: "beforeSave failingHook dirtyDoc = (dirtyDoc, Some (HookError ''Name is required''))"
    by (simp add: failingHook_def)
  have ne: "updated dirtyDoc \<noteq> []"
    by (simp add: dirtyDoc_def)
  have st: "updated dirtyDoc = [(''a'', VNum 1)] \<and> updatedAll dirtyDoc = False"
    by (simp add: dirtyDoc_def doc0_def)
  show ?thesis
    using beforeSave_throw_aborts [OF h1 h2, of None None] ne st by (simp add: throws_def)
qed

text \<open>
  The claim as stated covers \<open>set\<close> with a data argument. There \<open>setData\<close> runs before the
  hook: when the hook throws, the ledger that held \<open>a\<close> is empty and the full-overwrite flag,
  clear at the call, is set.
\<close>

theorem set_with_data_hook_counterexample:
  "updated dirtyDoc = [(''a'', VNum 1)] \<and> updatedAll dirtyDoc = False
   \<and> thrown (set_doc failingHook (Some [(''b'', VNum 1)]) None None dirtyDoc)
       = Some (HookError ''Name is required'')
   \<and> calls (set_doc failingHook (Some [(''b'', VNum 1)]) None None dirtyDoc) = []
   \<and> updated (state (set_doc failingHook (Some [(''b'', VNum 1)]) None None dirtyDoc)) = []
   \<and> updatedAll (state (set_doc failingHook (Some [(''b'', VNum 1)]) None None dirtyDoc)) = True"
  by (simp add: set_doc_def failingHook_def FirestoreDocument_def setData_def
      dirtyDoc_def doc0_def throws_def deepEqual.simps objectMember_def objectPrototype_def)

subsection \<open>C7: watch while already watching\<close>

text \<open>
  Claim C7, as amended. On a collection with a query and an active watch, \<open>watch\<close> throws the
  "watch is already called" error, registers nothing and leaves the collection as it was. On a
  document with a resolved reference and an active watch, \<open>watch\<close> does not throw: it cancels
  the prior listener, empties the snapshot queues and registers the new listener.
\<close>

theorem duplicate_watch:
  "(c_query c = Some q \<and> c_unwatchFn c = Some h0 \<longrightarrow>
      collection_watch cb h c = throws (FirestoreDocumentError WatchAlreadyCalled) c [])
   \<and> (reference d = Some ref \<and> unwatchFn d = Some h0 \<longrightarrow>
      watch callback h d
        = returns (d\<lparr>snapshotQueues := [], unwatchFn := Some h\<rparr>)
            [Unsubscribe h0, OnSnapshot ref callback])"
  by (simp add: collection_watch_def watch_def unwatch_def)

text \<open>At a concrete collection that is being watched through listener 7.\<close>

theorem duplicate_watch_witness:
  "c_query watchedCollection = Some ''users'' \<and> c_unwatchFn watchedCollection = Some 7
   \<and> collection_watch 1 8 watchedCollection
       = \<lparr>thrown = Some (FirestoreDocumentError WatchAlreadyCalled), state = watchedCollection,
           calls = []\<rparr>"
proof -
  have h: "c_query watchedCollection = Some ''users'' \<and> c_unwatchFn watchedCollection = Some 7"
    by (simp add: watchedCollection_def)
  show ?thesis
    using duplicate_watch [of watchedCollection "''users''" 7 1 8 doc0 "''users/u1''" None] h
    by (simp add: throws_def)
qed

text \<open>
  The claim as stated gives the document the collection's hard error. A document watched
  through listener 7 accepts a second \<open>watch\<close>: no error, listener 7 is cancelled and the new
  listener replaces it.
\<close>

theorem document_rewatch_counterexample:
  "unwatchFn (doc0\<lparr>unwatchFn := Some 7\<rparr>) = Some 7
   \<and> watch (Some 1) 8 (doc0\<lparr>unwatchFn := Some 7\<rparr>)
       = \<lparr>thrown = None, state = doc0\<lparr>unwatchFn := Some 8\<rparr>,
           calls = [Unsubscribe 7, OnSnapshot ''users/u1'' (Some 1)]\<rparr>"
  by (simp add: watch_def unwatch_def returns_def doc0_def)

subsection \<open>C8: operations without a reference\<close>

text \<open>
  Claim C8, as amended. On a document without a reference, \<open>get\<close> (with any \<open>cache\<close>
  argument, unless the cache is asked for and the document is marked loaded), \<open>set\<close>,
  \<open>save\<close>, \<open>delete\<close> and \<open>watch\<close> throw the "Document reference is not set" error, issue
  no store call and leave the document as it was; \<open>update\<close> returns without an error,
  without a store call and without a change.
\<close>

theorem missing_reference:
  "reference d = None \<Longrightarrow>
     (\<not> (cache \<and> isLoaded d) \<longrightarrow>
        get cls tx cache resp d = throws (FirestoreDocumentError ReferenceNotSet) d [])
   \<and> set_doc cls dat wtx wresp d = throws (FirestoreDocumentError ReferenceNotSet) d []
   \<and> save cls force wtx wresp d = throws (FirestoreDocumentError ReferenceNotSet) d []
   \<and> delete wtx wresp d = throws (FirestoreDocumentError ReferenceNotSet) d []
   \<and> watch callback h d = throws (FirestoreDocumentError ReferenceNotSet) d []
   \<and> update cls wtx wresp d = returns d []"
  by (simp add: get_def set_doc_def save_def delete_def watch_def update_def)

text \<open>
  At a concrete document whose reference was never set and which was never loaded, also for a
  \<open>get\<close> that asks for the cache.
\<close>

theorem missing_reference_witness:
  "reference unboundDoc = None
   \<and> \<not> (True \<and> isLoaded unboundDoc)
   \<and> get FirestoreDocument None True (Inr foundSnapshot) unboundDoc
       = \<lparr>thrown = Some (FirestoreDocumentError ReferenceNotSet), state = unboundDoc,
           calls = []\<rparr>
   \<and> thrown (delete None None unboundDoc) = Some (FirestoreDocumentError ReferenceNotSet)
   \<and> thrown (watch None 8 unboundDoc) = Some (FirestoreDocumentError ReferenceNotSet)"
proof -
  have h: "reference unboundDoc = None"
    by (simp add: unboundDoc_def)
  have c: "\<not> (True \<and> isLoaded unboundDoc)"
    by (simp add: unboundDoc_def)
  show ?thesis
    using missing_reference [OF h, of True FirestoreDocument None "Inr foundSnapshot" None None
        None False None 8] h c
    by (simp add: throws_def)
qed

text \<open>
  The claim as stated lists \<open>update\<close> among the operations that fail. Without a reference
  \<open>update\<close> returns at its first guard: no error, no store call, the document unchanged.
\<close>

theorem update_missing_reference_counterexample:
  "reference unboundDoc = None
   \<and> update FirestoreDocument None None unboundDoc
       = \<lparr>thrown = None, state = unboundDoc, calls = []\<rparr>"
  by (simp add: update_def returns_def unboundDoc_def)

subsection \<open>C9: the rendezvous queue\<close>

text \<open>
  Claim C9. On a new queue: an enqueue followed by a dequeue yields the enqueued item (backlog
  path); a dequeue on the empty queue stays pending and the next enqueue resolves it with the
  enqueued item (waiter path). For any waiters \<open>ws\<close> suspended on the empty queue, the items
  \<open>xs\<close> enqueued next go to the waiters in the order the waiters arrived, and the items beyond
  the waiters are buffered. For any items \<open>xs\<close> enqueued on the new queue, the following
  dequeues return them in the order they were enqueued, and the dequeues beyond the items stay
  pending. With as many dequeues as enqueues this is the FIFO order of all \<open>n\<close> items.
\<close>

theorem asyncQueue_handoff_fifo:
  "fst (dequeue w (snd (enqueue x newAsyncQueue))) = Resolved x
   \<and> fst (dequeue w newAsyncQueue) = Pending w
   \<and> fst (enqueue x (snd (dequeue w newAsyncQueue))) = Some (w, x)
   \<and> fst (enqueue_all xs (snd (dequeue_all ws newAsyncQueue)))
       = map Some (zip ws xs) @ replicate (length xs - length ws) None
   \<and> fst (dequeue_all ws (snd (enqueue_all xs newAsyncQueue)))
       = map Resolved (take (length ws) xs) @ map Pending (drop (length xs) ws)"
  by (simp add: enqueue_all_backlog dequeue_all_backlog enqueue_all_waiters dequeue_all_waiters
      newAsyncQueue_def enqueue_def dequeue_def)

text \<open>
  Three items enqueued and three dequeues: the items come back in order. Three waiters and two
  items: the two oldest waiters receive them.
\<close>

theorem asyncQueue_handoff_fifo_witness:
  "fst (dequeue_all [10, 11, 12 :: nat] (snd (enqueue_all [1, 2, 3 :: nat] newAsyncQueue)))
     = [Resolved 1, Resolved 2, Resolved 3]
   \<and> fst (enqueue_all [1, 2 :: nat] (snd (dequeue_all [10, 11, 12 :: nat] newAsyncQueue)))
     = [Some (10, 1), Some (11, 2)]"
proof -
  have fifo: "fst (dequeue_all [10, 11, 12 :: nat] (snd (enqueue_all [1, 2, 3 :: nat] newAsyncQueue)))
      = map Resolved (take (length [10, 11, 12 :: nat]) [1, 2, 3])
        @ map Pending (drop (length [1, 2, 3 :: nat]) [10, 11, 12])"
    using asyncQueue_handoff_fifo [of "0::nat" "0::nat" "[1, 2, 3 :: nat]" "[10, 11, 12 :: nat]"]
    by blast
  have waiters: "fst (enqueue_all [1, 2 :: nat] (snd (dequeue_all [10, 11, 12 :: nat] newAsyncQueue)))
      = map Some (zip [10, 11, 12] [1, 2])
        @ replicate (length [1, 2 :: nat] - length [10, 11, 12 :: nat]) None"
    using asyncQueue_handoff_fifo [of "0::nat" "0::nat" "[1, 2 :: nat]" "[10, 11, 12 :: nat]"]
    by blast
  show ?thesis
    unfolding fifo waiters by simp
qed

subsection \<open>C10: delete flips the existence flag before the remote call\<close>

text \<open>
  Claim C10. On a document with a resolved reference that exists remotely, \<open>delete\<close> issues
  one remote delete and leaves \<open>exist = false\<close>. When the remote delete rejects, the error is
  passed on and the document is still left with \<open>exist = false\<close> and its data untouched, so
  that a \<open>delete\<close> tried again returns without an error and without a store call.
\<close>

theorem delete_flips_exist_first:
  "reference d = Some ref \<Longrightarrow> exist d \<Longrightarrow>
     delete tx None d = returns (d\<lparr>exist := False\<rparr>) [RefDelete tx ref]
   \<and> delete tx (Some e) d = throws e (d\<lparr>exist := False\<rparr>) [RefDelete tx ref]
   \<and> exist (state (delete tx (Some e) d)) = False
   \<and> data (state (delete tx (Some e) d)) = data d
   \<and> delete tx' resp' (state (delete tx (Some e) d)) = returns (d\<lparr>exist := False\<rparr>) []"
  by (simp add: delete_def throws_def returns_def)

text \<open>At a concrete document, with a store that rejects the delete.\<close>

theorem delete_flips_exist_first_witness:
  "reference doc0 = Some ''users/u1'' \<and> exist doc0
   \<and> delete None (Some (StoreError ''unavailable'')) doc0
       = \<lparr>thrown = Some (StoreError ''unavailable''), state = doc0\<lparr>exist := False\<rparr>,
           calls = [RefDelete None ''users/u1'']\<rparr>
   \<and> delete None None (state (delete None (Some (StoreError ''unavailable'')) doc0))
       = \<lparr>thrown = None, state = doc0\<lparr>exist := False\<rparr>, calls = []\<rparr>"
proof -
  have h1: "reference doc0 = Some ''users/u1''" by (simp add: doc0_def)
  have h2: "exist doc0" by (simp add: doc0_def)
  note inst = delete_flips_exist_first [OF h1 h2, of None "StoreError ''unavailable''" None None,
      unfolded throws_def returns_def]
  show ?thesis
    using inst h1 h2 by blast
qed

end
